theory Spec2Isabelle
  imports Complex_Main "HOL-Library.Multiset"
begin

section \<open>Python values used by servidor.py\<close>

text \<open>
  A Python \<open>str\<close> is modelled as a HOL \<open>string\<close>: a list of 8-bit characters read as
  code points 0..255 (Latin-1, which is exactly what a WSGI header value holds).
  Code points above 255 are not represented.
\<close>

definition is_space :: "char \<Rightarrow> bool" where
  "is_space c =
     (let n = (of_char c :: nat)
      in (9 \<le> n \<and> n \<le> 13) \<or> (28 \<le> n \<and> n \<le> 32) \<or> n = 133 \<or> n = 160)"

text \<open>\<open>s.strip()\<close>: whitespace removed at both ends.\<close>

definition py_strip :: "string \<Rightarrow> string" where
  "py_strip s = rev (dropWhile is_space (rev (dropWhile is_space s)))"

text \<open>\<open>s.split()\<close> with no separator: the maximal runs of non-whitespace characters.\<close>

fun split_acc :: "string \<Rightarrow> string \<Rightarrow> string list" where
  "split_acc w [] = (if w = [] then [] else [w])"
| "split_acc w (c # cs) =
     (if is_space c
      then (if w = [] then split_acc [] cs else w # split_acc [] cs)
      else split_acc (w @ [c]) cs)"

definition py_split :: "string \<Rightarrow> string list" where
  "py_split s = split_acc [] s"

text \<open>\<open>s.lower()\<close> on code points 0..255.\<close>

definition lower_char :: "char \<Rightarrow> char" where
  "lower_char c =
     (let n = (of_char c :: nat)
      in if (65 \<le> n \<and> n \<le> 90) \<or> (192 \<le> n \<and> n \<le> 222 \<and> n \<noteq> 215)
         then char_of (n + 32) else c)"

definition py_lower :: "string \<Rightarrow> string" where
  "py_lower s = map lower_char s"

text \<open>
  A Python \<open>float\<close> as parsed from a JSON body: a finite value (every finite double is a
  rational), an infinity, or NaN.
\<close>

datatype pyfloat = Finite rat | Infinite | NaN

text \<open>
  A parsed JSON value. \<open>JNull\<close> is Python's \<open>None\<close>; \<open>JObj\<close> holds the items of
  the parsed \<open>dict\<close>.
\<close>

datatype json =
    JNull
  | JBool bool
  | JInt int
  | JFloat pyfloat
  | JStr string
  | JArr "json list"
  | JObj "(string \<times> json) list"

datatype pyerr =
    AttributeError
  | ValueError
  | TypeError
  | OverflowError
  | IntegrityError
  | BadRequest

text \<open>Truth value of a Python object, as \<open>not x\<close> and \<open>x or y\<close> test it.\<close>

fun truthy :: "json \<Rightarrow> bool" where
  "truthy JNull = False"
| "truthy (JBool b) = b"
| "truthy (JInt n) = (n \<noteq> 0)"
| "truthy (JFloat f) = (f \<noteq> Finite 0)"
| "truthy (JStr s) = (s \<noteq> [])"
| "truthy (JArr xs) = (xs \<noteq> [])"
| "truthy (JObj kvs) = (kvs \<noteq> [])"

definition py_or :: "json \<Rightarrow> json \<Rightarrow> json" where
  "py_or a b = (if truthy a then a else b)"

text \<open>\<open>x.get(key)\<close>: only a dict has the method; a missing key gives \<open>None\<close>.\<close>

fun dict_get :: "json \<Rightarrow> string \<Rightarrow> pyerr + json" where
  "dict_get (JObj kvs) k = Inr (case map_of kvs k of None \<Rightarrow> JNull | Some v \<Rightarrow> v)"
| "dict_get _ k = Inl AttributeError"

text \<open>\<open>x.strip()\<close>: only a \<open>str\<close> has the method.\<close>

fun strip_of :: "json \<Rightarrow> pyerr + string" where
  "strip_of (JStr s) = Inr (py_strip s)"
| "strip_of _ = Inl AttributeError"

section \<open>External collaborators and configuration\<close>

text \<open>
  The libraries servidor.py imports are not part of the repository. They enter the model
  as the fields of an environment, together with the configuration constants and the
  clock readings of the request being served:
  \<^item> \<open>ser_sign\<close>, \<open>ser_unsign\<close>: the signing primitive behind
    \<open>serializer = URLSafeTimedSerializer(SECRET_KEY)\<close>;
  \<^item> \<open>TOKEN_EXPIRATION_SECONDS\<close>: the configured TTL;
  \<^item> \<open>py_generate_password_hash\<close>, \<open>py_check_password_hash\<close>: werkzeug's hashing;
  \<^item> \<open>time_now\<close>: the clock in seconds, \<open>current_timestamp\<close>: SQLite's
    \<open>CURRENT_TIMESTAMP\<close>;
  \<^item> \<open>str_other\<close>: Python's \<open>str\<close> on a value that is not a \<open>str\<close>;
  \<^item> \<open>int_of_str\<close>: Python's \<open>int\<close> on a \<open>str\<close> (\<open>None\<close>: ValueError).
\<close>

record env =
  ser_sign :: "(string \<times> string) list \<Rightarrow> int \<Rightarrow> string"
  ser_unsign :: "string \<Rightarrow> ((string \<times> string) list \<times> int) option"
  TOKEN_EXPIRATION_SECONDS :: int
  py_generate_password_hash :: "string \<Rightarrow> string"
  py_check_password_hash :: "string \<Rightarrow> string \<Rightarrow> bool"
  time_now :: int
  current_timestamp :: string
  str_other :: "json \<Rightarrow> string"
  int_of_str :: "string \<Rightarrow> int option"

text \<open>\<open>str(x)\<close>.\<close>

definition py_str :: "env \<Rightarrow> json \<Rightarrow> string" where
  "py_str e x = (case x of JStr s \<Rightarrow> s | _ \<Rightarrow> str_other e x)"

text \<open>\<open>int(x)\<close>: a float is truncated towards zero.\<close>

definition trunc_rat :: "rat \<Rightarrow> int" where
  "trunc_rat q = (if 0 \<le> q then \<lfloor>q\<rfloor> else \<lceil>q\<rceil>)"

fun py_int :: "env \<Rightarrow> json \<Rightarrow> pyerr + int" where
  "py_int e JNull = Inl TypeError"
| "py_int e (JBool b) = Inr (if b then 1 else 0)"
| "py_int e (JInt n) = Inr n"
| "py_int e (JFloat (Finite q)) = Inr (trunc_rat q)"
| "py_int e (JFloat Infinite) = Inl OverflowError"
| "py_int e (JFloat NaN) = Inl ValueError"
| "py_int e (JStr s) = (case int_of_str e s of None \<Rightarrow> Inl ValueError | Some n \<Rightarrow> Inr n)"
| "py_int e (JArr xs) = Inl TypeError"
| "py_int e (JObj kvs) = Inl TypeError"

section \<open>The database\<close>

text \<open>
  The two tables of \<open>DDL_USERS\<close> and \<open>DDL_TASKS\<close>, each a list of rows in insertion
  order, and the AUTOINCREMENT counter of each (the largest rowid ever handed out).
  Row ids are SQLite INTEGER values.
\<close>

record usuario_row =
  user_id :: int
  usuario :: string
  password_hash :: string
  creado_en :: string

record tarea =
  tarea_id :: int
  titulo :: string
  hecha :: int
  usuario_id :: int
  creada_en :: string

record db =
  usuarios :: "usuario_row list"
  tareas :: "tarea list"
  seq_usuarios :: int
  seq_tareas :: int

text \<open>AUTOINCREMENT: one more than the largest rowid ever used in the table.\<close>

definition next_rowid :: "int \<Rightarrow> int list \<Rightarrow> int" where
  "next_rowid s ids = fold max ids s + 1"

text \<open>\<open>SELECT ... FROM usuarios WHERE usuario = ?\<close> followed by \<open>fetchone()\<close>.\<close>

definition select_usuario :: "db \<Rightarrow> string \<Rightarrow> usuario_row option" where
  "select_usuario d username = find (\<lambda>u. usuario u = username) (usuarios d)"

definition get_user_by_username :: "db \<Rightarrow> string \<Rightarrow> (int \<times> string \<times> string) option" where
  "get_user_by_username d username =
     (case select_usuario d username of
        None \<Rightarrow> None
      | Some u \<Rightarrow> Some (user_id u, usuario u, password_hash u))"

definition get_user_id :: "db \<Rightarrow> string \<Rightarrow> int option" where
  "get_user_id d username =
     (case select_usuario d username of None \<Rightarrow> None | Some u \<Rightarrow> Some (user_id u))"

text \<open>
  \<open>INSERT INTO usuarios (usuario, password_hash) VALUES (?, ?)\<close>: the UNIQUE constraint
  on \<open>usuario\<close> raises IntegrityError and leaves the table as it was.
\<close>

definition insert_usuario :: "env \<Rightarrow> db \<Rightarrow> string \<Rightarrow> string \<Rightarrow> pyerr + db" where
  "insert_usuario e d username pwhash =
     (if username \<in> set (map usuario (usuarios d)) then Inl IntegrityError
      else
        let new_id = next_rowid (seq_usuarios d) (map user_id (usuarios d))
        in Inr (d\<lparr>usuarios := usuarios d @
                     [\<lparr>user_id = new_id, usuario = username, password_hash = pwhash,
                       creado_en = current_timestamp e\<rparr>],
                   seq_usuarios := new_id\<rparr>))"

text \<open>
  \<open>INSERT INTO tareas (titulo, usuario_id) VALUES (?, ?)\<close>: \<open>hecha\<close> and \<open>creada_en\<close>
  take their defaults; a NULL \<open>usuario_id\<close> violates NOT NULL. The result carries
  \<open>cur.lastrowid\<close>.
\<close>

definition insert_tarea :: "env \<Rightarrow> db \<Rightarrow> string \<Rightarrow> int option \<Rightarrow> pyerr + (db \<times> int)" where
  "insert_tarea e d t uid =
     (case uid of
        None \<Rightarrow> Inl IntegrityError
      | Some u \<Rightarrow>
          let new_id = next_rowid (seq_tareas d) (map tarea_id (tareas d))
          in Inr (d\<lparr>tareas := tareas d @
                       [\<lparr>tarea_id = new_id, titulo = t, hecha = 0, usuario_id = u,
                         creada_en = current_timestamp e\<rparr>],
                     seq_tareas := new_id\<rparr>, new_id))"

text \<open>\<open>WHERE id = ? AND usuario_id = ?\<close>; a NULL parameter equals nothing.\<close>

definition where_id_and_usuario :: "int \<Rightarrow> int option \<Rightarrow> tarea \<Rightarrow> bool" where
  "where_id_and_usuario tid uid t = (tarea_id t = tid \<and> Some (usuario_id t) = uid)"

text \<open>
  \<open>UPDATE tareas SET ... WHERE id = ? AND usuario_id = ?\<close>, with the columns that
  \<open>sets\<close> names; the result carries \<open>cur.rowcount\<close>.
\<close>

definition set_columns :: "string option \<Rightarrow> int option \<Rightarrow> tarea \<Rightarrow> tarea" where
  "set_columns new_titulo new_hecha t =
     (let t1 = (case new_titulo of None \<Rightarrow> t | Some s \<Rightarrow> t\<lparr>titulo := s\<rparr>)
      in (case new_hecha of None \<Rightarrow> t1 | Some h \<Rightarrow> t1\<lparr>hecha := h\<rparr>))"

definition update_tareas ::
  "db \<Rightarrow> string option \<Rightarrow> int option \<Rightarrow> int \<Rightarrow> int option \<Rightarrow> db \<times> nat" where
  "update_tareas d new_titulo new_hecha tid uid =
     (d\<lparr>tareas := map (\<lambda>t. if where_id_and_usuario tid uid t
                            then set_columns new_titulo new_hecha t else t) (tareas d)\<rparr>,
      length (filter (where_id_and_usuario tid uid) (tareas d)))"

text \<open>\<open>DELETE FROM tareas WHERE id = ? AND usuario_id = ?\<close>.\<close>

definition delete_tareas :: "db \<Rightarrow> int \<Rightarrow> int option \<Rightarrow> db \<times> nat" where
  "delete_tareas d tid uid =
     (d\<lparr>tareas := filter (\<lambda>t. \<not> where_id_and_usuario tid uid t) (tareas d)\<rparr>,
      length (filter (where_id_and_usuario tid uid) (tareas d)))"

text \<open>
  \<open>conn.execute(sql, params)\<close> binds its parameters before the statement runs, and
  sqlite3 raises OverflowError for a Python \<open>int\<close> that does not fit SQLite's 64-bit
  signed INTEGER. The task id of the URL (\<open><int:tid>\<close>, any run of digits) is the one
  integer parameter that can be out of range: the others are read from the table or are
  0 or 1.
\<close>

definition sqlite_int_ok :: "int \<Rightarrow> bool" where
  "sqlite_int_ok n = (- (2 ^ 63) \<le> n \<and> n < 2 ^ 63)"

definition execute_update ::
  "db \<Rightarrow> string option \<Rightarrow> int option \<Rightarrow> int \<Rightarrow> int option \<Rightarrow> pyerr + (db \<times> nat)" where
  "execute_update d new_titulo new_hecha tid uid =
     (if sqlite_int_ok tid then Inr (update_tareas d new_titulo new_hecha tid uid)
      else Inl OverflowError)"

definition execute_delete :: "db \<Rightarrow> int \<Rightarrow> int option \<Rightarrow> pyerr + (db \<times> nat)" where
  "execute_delete d tid uid =
     (if sqlite_int_ok tid then Inr (delete_tareas d tid uid) else Inl OverflowError)"

text \<open>
  \<open>SELECT id, titulo, hecha, creada_en FROM tareas WHERE usuario_id=? ORDER BY id DESC\<close>.
\<close>

definition select_tareas :: "db \<Rightarrow> int option \<Rightarrow> tarea list" where
  "select_tareas d uid =
     sort_key (\<lambda>t. - tarea_id t) (filter (\<lambda>t. Some (usuario_id t) = uid) (tareas d))"

section \<open>Requests and responses\<close>

text \<open>
  What a handler reads of the Flask request: the Authorization header (if present),
  \<open>request.is_json\<close> (the content type), and the body parsed as JSON (\<open>None\<close> when the
  body is not valid JSON).
\<close>

record request =
  authorization :: "string option"
  is_json :: bool
  body_json :: "json option"

datatype payload = Json json | Html string

record response =
  status :: nat
  body :: payload

text \<open>\<open>jsonify({...}), code\<close>.\<close>

definition jsonify :: "(string \<times> json) list \<Rightarrow> nat \<Rightarrow> response" where
  "jsonify kvs code = \<lparr>status = code, body = Json (JObj kvs)\<rparr>"

text \<open>\<open>request.get_json(silent=True)\<close> and \<open>request.json\<close>.\<close>

definition get_json_silent :: "request \<Rightarrow> json" where
  "get_json_silent r = (case body_json r of None \<Rightarrow> JNull | Some j \<Rightarrow> j)"

definition request_json :: "request \<Rightarrow> pyerr + json" where
  "request_json r = (case body_json r of None \<Rightarrow> Inl BadRequest | Some j \<Rightarrow> Inr j)"

text \<open>Sequencing of steps that may raise.\<close>

definition bind_err :: "pyerr + 'a \<Rightarrow> ('a \<Rightarrow> pyerr + 'b) \<Rightarrow> pyerr + 'b" where
  "bind_err m f = (case m of Inl err \<Rightarrow> Inl err | Inr x \<Rightarrow> f x)"

section \<open>Utils\<close>

definition msg_obligatorios :: string where
  "msg_obligatorios = ''Usuario y contrase'' @ [CHR 0xF1] @ ''a son obligatorios.''"

definition msg_ya_existe :: string where
  "msg_ya_existe = ''El usuario ya existe.''"

definition msg_creado :: string where
  "msg_creado = ''Usuario creado con '' @ [CHR 0xE9] @ ''xito.''"

text \<open>
  \<open>create_user\<close> reads through one connection and writes through a second one.
  \<open>others\<close> is what other requests commit between the two (the identity when the
  request runs alone).
\<close>

definition create_user ::
  "env \<Rightarrow> (db \<Rightarrow> db) \<Rightarrow> db \<Rightarrow> string \<Rightarrow> string \<Rightarrow> (bool \<times> string) \<times> db" where
  "create_user e others d username password =
     (if username = [] \<or> password = [] then ((False, msg_obligatorios), d)
      else if get_user_by_username d username \<noteq> None then ((False, msg_ya_existe), d)
      else
        let pwhash = py_generate_password_hash e password;
            d1 = others d
        in (case insert_usuario e d1 username pwhash of
              Inr d2 \<Rightarrow> ((True, msg_creado), d2)
            | Inl err \<Rightarrow> ((False, msg_ya_existe), d1)))"

definition generate_token :: "env \<Rightarrow> string \<Rightarrow> string" where
  "generate_token e username = ser_sign e [(''sub'', username)] (time_now e)"

datatype ser_error = BadSignature | SignatureExpired

text \<open>
  Modelled from the spec: \<open>serializer.loads(token, max_age)\<close> belongs to the token
  library, which is not in the repository. Following section 4.3 of the specification,
  it fails when the signature is invalid, or when the time elapsed since issuance
  exceeds \<open>max_age\<close>; otherwise it gives back the signed payload.
\<close>

definition ser_loads :: "env \<Rightarrow> string \<Rightarrow> int \<Rightarrow> ser_error + (string \<times> string) list" where
  "ser_loads e token max_age =
     (case ser_unsign e token of
        None \<Rightarrow> Inl BadSignature
      | Some (data, issued_at) \<Rightarrow>
          if time_now e - issued_at > max_age then Inl SignatureExpired else Inr data)"

definition verify_token :: "env \<Rightarrow> string \<Rightarrow> string option" where
  "verify_token e token =
     (case ser_loads e token (TOKEN_EXPIRATION_SECONDS e) of
        Inr data \<Rightarrow> map_of data ''sub''
      | Inl err \<Rightarrow> None)"

definition require_user :: "env \<Rightarrow> request \<Rightarrow> string option" where
  "require_user e r =
     (let auth = (case authorization r of None \<Rightarrow> [] | Some a \<Rightarrow> a);
          parts = py_split auth
      in if length parts = 2 \<and> py_lower (parts ! 0) = ''bearer''
         then verify_token e (parts ! 1) else None)"

text \<open>\<open>if not username\<close>: \<open>None\<close> and the empty string are both rejected.\<close>

definition not_username :: "string option \<Rightarrow> bool" where
  "not_username u = (case u of None \<Rightarrow> True | Some s \<Rightarrow> s = [])"

section \<open>Endpoints\<close>

definition no_autorizado :: response where
  "no_autorizado = jsonify [(''ok'', JBool False), (''error'', JStr ''No autorizado'')] 401"

definition se_requiere_json :: response where
  "se_requiere_json =
     jsonify [(''ok'', JBool False), (''error'', JStr ''Se requiere JSON'')] 400"

definition key_contrasena_tilde :: string where
  "key_contrasena_tilde = ''contrase'' @ [CHR 0xF1] @ ''a''"

text \<open>The two fields both \<open>registro\<close> and \<open>login\<close> read from the payload.\<close>

definition read_credentials :: "request \<Rightarrow> pyerr + (string \<times> string)" where
  "read_credentials r =
     (let payload = py_or (get_json_silent r) (JObj [])
      in bind_err (dict_get payload ''usuario'') (\<lambda>u.
         bind_err (strip_of (py_or u (JStr []))) (\<lambda>username.
         bind_err (dict_get payload key_contrasena_tilde) (\<lambda>p1.
         bind_err (dict_get payload ''contrasena'') (\<lambda>p2.
         bind_err (strip_of (py_or (py_or p1 p2) (JStr []))) (\<lambda>password.
         Inr (username, password)))))))"

definition registro ::
  "env \<Rightarrow> (db \<Rightarrow> db) \<Rightarrow> request \<Rightarrow> db \<Rightarrow> (pyerr + response) \<times> db" where
  "registro e others r d =
     (if \<not> is_json r then (Inr (jsonify [(''error'', JStr ''Se requiere JSON'')] 400), d)
      else
        case read_credentials r of
          Inl err \<Rightarrow> (Inl err, d)
        | Inr (username, password) \<Rightarrow>
            (case create_user e others d username password of
               ((ok, msg), d') \<Rightarrow>
                 (Inr (jsonify [(''ok'', JBool ok), (''mensaje'', JStr msg)]
                         (if ok then 201 else 400)), d')))"



definition tareas_html :: "string \<Rightarrow> string" where
  "tareas_html username =
     [CHR 0x0A] @ ''    <!doctype html><html lang=es><meta charset='' @ [CHR 0x22] @ ''utf-8''
       @ [CHR 0x22] @ ''><title>Bienvenido</title>'' @ [CHR 0x0A]
     @ ''    <body style='' @ [CHR 0x22] @ ''font-family:system-ui; margin:2rem''
       @ [CHR 0x22] @ ''>'' @ [CHR 0x0A]
     @ ''      <h1>'' @ [CHR 0xA1] @ ''Hola, '' @ username @ ''!</h1>'' @ [CHR 0x0A]
     @ ''      <p>Accediste correctamente a <strong>/tareas</strong>.</p>'' @ [CHR 0x0A]
     @ ''    </body></html>'' @ [CHR 0x0A] @ ''    ''"

definition tareas_route :: "env \<Rightarrow> request \<Rightarrow> response" where
  "tareas_route e r =
     (let username = require_user e r
      in if not_username username
         then jsonify [(''ok'', JBool False),
                       (''error'', JStr (''No autorizado. Envi'' @ [CHR 0xE1] @ '' ''
                          @ [CHR 0x27] @ ''Authorization: Bearer <token>'' @ [CHR 0x27]))] 401
         else \<lparr>status = 200, body = Html (tareas_html (the username))\<rparr>)"

text \<open>\<open>(request.json.get("titulo") or "").strip()\<close>.\<close>

definition read_titulo :: "request \<Rightarrow> pyerr + string" where
  "read_titulo r =
     bind_err (request_json r) (\<lambda>j.
     bind_err (dict_get j ''titulo'') (\<lambda>t.
     strip_of (py_or t (JStr []))))"

definition crear_tarea :: "env \<Rightarrow> request \<Rightarrow> db \<Rightarrow> (pyerr + response) \<times> db" where
  "crear_tarea e r d =
     (let username = require_user e r
      in if not_username username then (Inr no_autorizado, d)
         else if \<not> is_json r then (Inr se_requiere_json, d)
         else
           case read_titulo r of
             Inl err \<Rightarrow> (Inl err, d)
           | Inr t \<Rightarrow>
               if t = []
               then (Inr (jsonify [(''ok'', JBool False),
                                   (''error'', JStr ''titulo es obligatorio'')] 400), d)
               else
                 let uid = get_user_id d (the username)
                 in (case insert_tarea e d t uid of
                       Inl err \<Rightarrow> (Inl err, d)
                     | Inr (d', tid) \<Rightarrow>
                         (Inr (jsonify [(''ok'', JBool True), (''id'', JInt tid),
                                        (''titulo'', JStr t), (''hecha'', JInt 0)] 201), d')))"

definition item_of :: "tarea \<Rightarrow> json" where
  "item_of t =
     JObj [(''id'', JInt (tarea_id t)), (''titulo'', JStr (titulo t)),
           (''hecha'', JInt (hecha t)), (''creada_en'', JStr (creada_en t))]"

definition listar_tareas :: "env \<Rightarrow> request \<Rightarrow> db \<Rightarrow> response" where
  "listar_tareas e r d =
     (let username = require_user e r
      in if not_username username then no_autorizado
         else
           let uid = get_user_id d (the username);
               rows = map item_of (select_tareas d uid)
           in jsonify [(''ok'', JBool True), (''items'', JArr rows)] 200)"

text \<open>
  The \<open>sets\<close> and \<open>params\<close> that \<open>actualizar_tarea\<close> builds from the body: the new
  title and the new flag, each only when its field is not \<open>None\<close>.
\<close>

definition read_sets :: "env \<Rightarrow> request \<Rightarrow> pyerr + (string option \<times> int option)" where
  "read_sets e r =
     bind_err (request_json r) (\<lambda>j.
     bind_err (dict_get j ''titulo'') (\<lambda>t.
     bind_err (dict_get j ''hecha'') (\<lambda>h.
       let new_titulo = (if t \<noteq> JNull then Some (py_strip (py_str e t)) else None)
       in if h \<noteq> JNull
          then bind_err (py_int e h) (\<lambda>n.
                 Inr (new_titulo, Some (if n \<noteq> 0 then 1 else 0)))
          else Inr (new_titulo, None))))"

definition no_encontrada :: response where
  "no_encontrada = jsonify [(''ok'', JBool False), (''error'', JStr ''No encontrada'')] 404"

definition actualizar_tarea ::
  "env \<Rightarrow> request \<Rightarrow> int \<Rightarrow> db \<Rightarrow> (pyerr + response) \<times> db" where
  "actualizar_tarea e r tid d =
     (let username = require_user e r
      in if not_username username then (Inr no_autorizado, d)
         else if \<not> is_json r then (Inr se_requiere_json, d)
         else
           let uid = get_user_id d (the username)
           in (case read_sets e r of
                 Inl err \<Rightarrow> (Inl err, d)
               | Inr (new_titulo, new_hecha) \<Rightarrow>
                   if new_titulo = None \<and> new_hecha = None
                   then (Inr (jsonify [(''ok'', JBool False),
                                       (''error'', JStr ''Nada para actualizar'')] 400), d)
                   else
                     (case execute_update d new_titulo new_hecha tid uid of
                        Inl err \<Rightarrow> (Inl err, d)
                      | Inr (d', rowcount) \<Rightarrow>
                          if rowcount = 0 then (Inr no_encontrada, d')
                          else (Inr (jsonify [(''ok'', JBool True)] 200), d'))))"

definition borrar_tarea ::
  "env \<Rightarrow> request \<Rightarrow> int \<Rightarrow> db \<Rightarrow> (pyerr + response) \<times> db" where
  "borrar_tarea e r tid d =
     (let username = require_user e r
      in if not_username username then (Inr no_autorizado, d)
         else
           let uid = get_user_id d (the username)
           in (case execute_delete d tid uid of
                 Inl err \<Rightarrow> (Inl err, d)
               | Inr (d', rowcount) \<Rightarrow>
                   if rowcount = 0 then (Inr no_encontrada, d')
                   else (Inr (jsonify [(''ok'', JBool True)] 200), d')))"

section \<open>A small installation, for the worked examples\<close>

text \<open>
  An environment with a signer that knows two tokens (\<open>tA\<close> for ana and \<open>tB\<close> for
  bob, both issued at time 100), a hash that prefixes \<open>h:\<close>, the clock at 200 and the
  default TTL; and a database with these two users and one task each.
\<close>

definition example_env :: env where
  "example_env =
     \<lparr>ser_sign = (\<lambda>data t. if data = [(''sub'', ''ana'')] then ''tA'' else ''tB''),
      ser_unsign = (\<lambda>tok. if tok = ''tA'' then Some ([(''sub'', ''ana'')], 100)
                           else if tok = ''tB'' then Some ([(''sub'', ''bob'')], 100)
                           else None),
      TOKEN_EXPIRATION_SECONDS = 3600,
      py_generate_password_hash = (\<lambda>p. ''h:'' @ p),
      py_check_password_hash = (\<lambda>h p. h = ''h:'' @ p),
      time_now = 200,
      current_timestamp = ''2024-01-01 00:00:00'',
      str_other = (\<lambda>x. ''?''),
      int_of_str = (\<lambda>s. if s = ''1'' then Some 1 else if s = ''0'' then Some 0 else None)\<rparr>"

definition example_db :: db where
  "example_db =
     \<lparr>usuarios =
        [\<lparr>user_id = 1, usuario = ''ana'', password_hash = ''h:pw'',
          creado_en = ''2024-01-01 00:00:00''\<rparr>,
         \<lparr>user_id = 2, usuario = ''bob'', password_hash = ''h:pw2'',
          creado_en = ''2024-01-01 00:00:00''\<rparr>],
      tareas =
        [\<lparr>tarea_id = 1, titulo = ''T'', hecha = 0, usuario_id = 1,
          creada_en = ''2024-01-01 00:00:00''\<rparr>,
         \<lparr>tarea_id = 2, titulo = ''U'', hecha = 0, usuario_id = 2,
          creada_en = ''2024-01-01 00:00:00''\<rparr>],
      seq_usuarios = 2, seq_tareas = 2\<rparr>"

text \<open>A JSON request carrying \<open>Authorization: Bearer tok\<close> and the parsed body \<open>j\<close>.\<close>

definition bearer_request :: "string \<Rightarrow> json \<Rightarrow> request" where
  "bearer_request tok j =
     \<lparr>authorization = Some (''Bearer '' @ tok), is_json = True, body_json = Some j\<rparr>"

text \<open>The database right after \<open>init_db\<close>, and a registration request for ana.\<close>

definition empty_db :: db where
  "empty_db = \<lparr>usuarios = [], tareas = [], seq_usuarios = 0, seq_tareas = 0\<rparr>"

definition registro_ana :: request where
  "registro_ana =
     \<lparr>authorization = None, is_json = True,
      body_json = Some (JObj [(''usuario'', JStr ''ana''), (''contrasena'', JStr ''pw'')])\<rparr>"


section \<open>Ownership scoping of update and delete\<close>

lemma where_id_and_usuario_Some:
  "where_id_and_usuario tid (Some uid) t = (tarea_id t = tid \<and> usuario_id t = uid)"
  by (simp add: where_id_and_usuario_def)

lemma update_tareas_usuarios:
  "usuarios (fst (update_tareas d nt nh tid uid)) = usuarios d"
  by (simp add: update_tareas_def)

lemma update_tareas_length:
  "length (tareas (fst (update_tareas d nt nh tid uid))) = length (tareas d)"
  by (simp add: update_tareas_def)

lemma update_tareas_nth:
  "i < length (tareas d) \<Longrightarrow>
   tareas (fst (update_tareas d nt nh tid uid)) ! i =
     (if where_id_and_usuario tid uid (tareas d ! i)
      then set_columns nt nh (tareas d ! i) else tareas d ! i)"
  by (simp add: update_tareas_def)






lemma borrar_tarea_db_cases:
  "snd (borrar_tarea e r tid d) = d \<or>
   snd (borrar_tarea e r tid d) =
      fst (delete_tareas d tid (get_user_id d (the (require_user e r))))"
  by (auto simp: borrar_tarea_def execute_delete_def Let_def split: prod.splits)








section \<open>Frame of an update\<close>

lemma set_columns_fixed:
  "tarea_id (set_columns nt nh t) = tarea_id t"
  "usuario_id (set_columns nt nh t) = usuario_id t"
  "creada_en (set_columns nt nh t) = creada_en t"
  by (simp_all add: set_columns_def Let_def split: option.splits)

lemma set_columns_titulo_None: "titulo (set_columns None nh t) = titulo t"
  by (simp add: set_columns_def split: option.splits)

lemma set_columns_hecha_None: "hecha (set_columns nt None t) = hecha t"
  by (simp add: set_columns_def Let_def split: option.splits)

lemma read_sets_fields:
  assumes "read_sets e r = Inr (nt, nh)" and "body_json r = Some j"
  shows "(dict_get j ''titulo'' = Inr JNull \<longrightarrow> nt = None) \<and>
         (dict_get j ''hecha'' = Inr JNull \<longrightarrow> nh = None)"
  using assms
  by (auto simp: read_sets_def request_json_def bind_err_def Let_def
      split: sum.splits if_splits)

lemma actualizar_tarea_ok:
  assumes "actualizar_tarea e r tid d = (Inr resp, d')" and "status resp = 200"
  shows "\<exists>nt nh. read_sets e r = Inr (nt, nh) \<and>
           d' = fst (update_tareas d nt nh tid (get_user_id d (the (require_user e r))))"
  using assms
  by (auto simp: actualizar_tarea_def execute_update_def Let_def no_autorizado_def
      se_requiere_json_def no_encontrada_def jsonify_def
      split: sum.splits prod.splits if_splits)

text \<open>
  Claim C10. After a successful update (status 200), every row keeps its id, usuario_id
  and creada_en, and every row other than the targeted one is unchanged; when the body
  supplies no titulo (absent or null), every titulo is unchanged, and when it supplies no
  hecha, every hecha is unchanged. The users table is not touched.
\<close>

theorem update_frame:
  assumes auth: "require_user e r = Some username" "username \<noteq> []"
    and owner: "get_user_id d username = Some uid"
    and body: "body_json r = Some j"
    and ok: "actualizar_tarea e r tid d = (Inr resp, d')" "status resp = 200"
  shows "usuarios d' = usuarios d \<and> length (tareas d') = length (tareas d) \<and>
    (\<forall>i < length (tareas d).
       tarea_id (tareas d' ! i) = tarea_id (tareas d ! i) \<and>
       usuario_id (tareas d' ! i) = usuario_id (tareas d ! i) \<and>
       creada_en (tareas d' ! i) = creada_en (tareas d ! i) \<and>
       (dict_get j ''titulo'' = Inr JNull \<longrightarrow> titulo (tareas d' ! i) = titulo (tareas d ! i)) \<and>
       (dict_get j ''hecha'' = Inr JNull \<longrightarrow> hecha (tareas d' ! i) = hecha (tareas d ! i)) \<and>
       (\<not> (tarea_id (tareas d ! i) = tid \<and> usuario_id (tareas d ! i) = uid) \<longrightarrow>
          tareas d' ! i = tareas d ! i))"
proof -
  obtain nt nh where rs: "read_sets e r = Inr (nt, nh)"
    and d': "d' = fst (update_tareas d nt nh tid (Some uid))"
    using actualizar_tarea_ok[OF ok] auth owner by auto
  note f = read_sets_fields[OF rs body]
  have row: "tarea_id (tareas d' ! i) = tarea_id (tareas d ! i) \<and>
       usuario_id (tareas d' ! i) = usuario_id (tareas d ! i) \<and>
       creada_en (tareas d' ! i) = creada_en (tareas d ! i) \<and>
       (dict_get j ''titulo'' = Inr JNull \<longrightarrow> titulo (tareas d' ! i) = titulo (tareas d ! i)) \<and>
       (dict_get j ''hecha'' = Inr JNull \<longrightarrow> hecha (tareas d' ! i) = hecha (tareas d ! i)) \<and>
       (\<not> (tarea_id (tareas d ! i) = tid \<and> usuario_id (tareas d ! i) = uid) \<longrightarrow>
          tareas d' ! i = tareas d ! i)"
    if "i < length (tareas d)" for i
    using that f
    by (auto simp: d' update_tareas_nth set_columns_fixed set_columns_titulo_None
        set_columns_hecha_None where_id_and_usuario_Some)
  show ?thesis
    using row by (simp add: d' update_tareas_usuarios update_tareas_length)
qed

theorem update_frame_witness:
  "actualizar_tarea example_env (bearer_request ''tA'' (JObj [(''hecha'', JInt 7)])) 1 example_db =
     (Inr (jsonify [(''ok'', JBool True)] 200),
      example_db\<lparr>tareas :=
        [\<lparr>tarea_id = 1, titulo = ''T'', hecha = 1, usuario_id = 1,
          creada_en = ''2024-01-01 00:00:00''\<rparr>,
         \<lparr>tarea_id = 2, titulo = ''U'', hecha = 0, usuario_id = 2,
          creada_en = ''2024-01-01 00:00:00''\<rparr>]\<rparr>) \<and>
   titulo (tareas (snd (actualizar_tarea example_env
      (bearer_request ''tA'' (JObj [(''hecha'', JInt 7)])) 1 example_db)) ! 0) = ''T'' \<and>
   tareas (snd (actualizar_tarea example_env
      (bearer_request ''tA'' (JObj [(''hecha'', JInt 7)])) 1 example_db)) ! 1 = tareas example_db ! 1"
proof -
  let ?r = "bearer_request ''tA'' (JObj [(''hecha'', JInt 7)])"
  let ?d' = "example_db\<lparr>tareas :=
        [\<lparr>tarea_id = 1, titulo = ''T'', hecha = 1, usuario_id = 1,
          creada_en = ''2024-01-01 00:00:00''\<rparr>,
         \<lparr>tarea_id = 2, titulo = ''U'', hecha = 0, usuario_id = 2,
          creada_en = ''2024-01-01 00:00:00''\<rparr>]\<rparr>"
  have h1: "require_user example_env ?r = Some ''ana''" by code_simp
  have h2: "''ana'' \<noteq> []" by simp
  have h3: "get_user_id example_db ''ana'' = Some 1" by code_simp
  have h4: "body_json ?r = Some (JObj [(''hecha'', JInt 7)])" by (simp add: bearer_request_def)
  have h5: "actualizar_tarea example_env ?r 1 example_db = (Inr (jsonify [(''ok'', JBool True)] 200), ?d')"
    by code_simp
  have h6: "status (jsonify [(''ok'', JBool True)] 200) = 200" by (simp add: jsonify_def)
  have t: "dict_get (JObj [(''hecha'', JInt 7)]) ''titulo'' = Inr JNull" by simp
  have l: "(0::nat) < length (tareas example_db)" "(1::nat) < length (tareas example_db)"
    by (simp_all add: example_db_def)
  have t0: "titulo (tareas example_db ! 0) = ''T''" by (simp add: example_db_def)
  have o: "\<not> (tarea_id (tareas example_db ! 1) = 1 \<and> usuario_id (tareas example_db ! 1) = 1)"
    by (simp add: example_db_def)
  note th = update_frame[OF h1 h2 h3 h4 h5 h6]
  from th l(1) t have "titulo (tareas ?d' ! 0) = titulo (tareas example_db ! 0)" by blast
  moreover from th l(2) o have "tareas ?d' ! 1 = tareas example_db ! 1" by blast
  ultimately show ?thesis
    using h5 t0 by (simp only: snd_conv simp_thms)
qed

section \<open>Listing\<close>






section \<open>Creating a task\<close>

lemma py_strip_empty_iff: "py_strip s = [] \<longleftrightarrow> (\<forall>c \<in> set s. is_space c)"
proof -
  have "py_strip s = [] \<longleftrightarrow> dropWhile is_space (rev (dropWhile is_space s)) = []"
    by (simp add: py_strip_def)
  also have "\<dots> \<longleftrightarrow> (\<forall>c \<in> set (dropWhile is_space s). is_space c)"
    by (simp add: dropWhile_eq_Nil_conv)
  also have "\<dots> \<longleftrightarrow> dropWhile is_space s = []"
  proof
    assume a: "\<forall>c \<in> set (dropWhile is_space s). is_space c"
    show "dropWhile is_space s = []"
    proof (rule ccontr)
      assume "dropWhile is_space s \<noteq> []"
      then have "\<not> is_space (hd (dropWhile is_space s))" by (rule hd_dropWhile)
      moreover have "hd (dropWhile is_space s) \<in> set (dropWhile is_space s)"
        using \<open>dropWhile is_space s \<noteq> []\<close> by simp
      ultimately show False using a by blast
    qed
  next
    assume "dropWhile is_space s = []"
    then show "\<forall>c \<in> set (dropWhile is_space s). is_space c" by (simp only: list.set ball_empty)
  qed
  also have "\<dots> \<longleftrightarrow> (\<forall>c \<in> set s. is_space c)"
    by (simp add: dropWhile_eq_Nil_conv)
  finally show ?thesis .
qed








section \<open>The fields of an update\<close>






section \<open>Titles in the store\<close>

text \<open>Creating and deleting keep every stored title non-empty.\<close>

lemma crear_tarea_titulos:
  assumes "\<forall>t \<in> set (tareas d). titulo t \<noteq> []"
  shows "\<forall>t \<in> set (tareas (snd (crear_tarea e r d))). titulo t \<noteq> []"
  using assms
  by (auto simp: crear_tarea_def insert_tarea_def Let_def
      split: sum.splits option.splits if_splits)

lemma borrar_tarea_titulos:
  assumes "\<forall>t \<in> set (tareas d). titulo t \<noteq> []"
  shows "\<forall>t \<in> set (tareas (snd (borrar_tarea e r tid d))). titulo t \<noteq> []"
  using assms
  by (auto simp: borrar_tarea_def execute_delete_def delete_tareas_def Let_def
      split: if_splits)

text \<open>
  Claim C7 does not hold of the code. \<open>crear_tarea\<close> rejects an empty title, but
  \<open>actualizar_tarea\<close> stores whatever \<open>str(titulo).strip()\<close> gives: starting from the
  empty database, ana registers, creates the task ``T'' (id 1) and then updates it with
  the title \<open>"  "\<close>; the answer is 200 and the stored title is empty.
\<close>

theorem actualizar_tarea_stores_empty_titulo:
  "(let d1 = snd (registro example_env id registro_ana empty_db);
        d2 = snd (crear_tarea example_env (bearer_request ''tA'' (JObj [(''titulo'', JStr ''T'')])) d1);
        res = actualizar_tarea example_env
                (bearer_request ''tA'' (JObj [(''titulo'', JStr ''  '')])) 1 d2
    in map titulo (tareas d2) = [''T''] \<and>
       fst res = Inr (jsonify [(''ok'', JBool True)] 200) \<and>
       map titulo (tareas (snd res)) = [[]])"
  by code_simp

section \<open>Registration\<close>

lemma select_usuario_None_iff:
  "select_usuario d username = None \<longleftrightarrow> username \<notin> usuario ` set (usuarios d)"
  by (auto simp: select_usuario_def find_None_iff)

lemma get_user_by_username_None_iff:
  "get_user_by_username d username = None \<longleftrightarrow> username \<notin> usuario ` set (usuarios d)"
  by (simp add: get_user_by_username_def select_usuario_None_iff[symmetric] split: option.splits)

lemma insert_usuario_duplicate:
  "username \<in> usuario ` set (usuarios d) \<Longrightarrow>
   insert_usuario e d username pwhash = Inl IntegrityError"
  by (simp add: insert_usuario_def)

lemma insert_usuario_fresh:
  "username \<notin> usuario ` set (usuarios d) \<Longrightarrow>
   insert_usuario e d username pwhash =
     Inr (d\<lparr>usuarios := usuarios d @
              [\<lparr>user_id = next_rowid (seq_usuarios d) (map user_id (usuarios d)),
                usuario = username, password_hash = pwhash,
                creado_en = current_timestamp e\<rparr>],
            seq_usuarios := next_rowid (seq_usuarios d) (map user_id (usuarios d))\<rparr>)"
  by (simp add: insert_usuario_def Let_def)

lemma create_user_empty:
  "username = [] \<or> password = [] \<Longrightarrow>
   create_user e others d username password = ((False, msg_obligatorios), d)"
  by (auto simp: create_user_def)

lemma create_user_known:
  "username \<noteq> [] \<Longrightarrow> password \<noteq> [] \<Longrightarrow> username \<in> usuario ` set (usuarios d) \<Longrightarrow>
   create_user e others d username password = ((False, msg_ya_existe), d)"
  using get_user_by_username_None_iff[of d username] by (simp add: create_user_def)

lemma create_user_race:
  "username \<noteq> [] \<Longrightarrow> password \<noteq> [] \<Longrightarrow> username \<notin> usuario ` set (usuarios d) \<Longrightarrow>
   username \<in> usuario ` set (usuarios (others d)) \<Longrightarrow>
   create_user e others d username password = ((False, msg_ya_existe), others d)"
  using get_user_by_username_None_iff[of d username]
  by (simp add: create_user_def Let_def insert_usuario_duplicate)

lemma create_user_new:
  "username \<noteq> [] \<Longrightarrow> password \<noteq> [] \<Longrightarrow> username \<notin> usuario ` set (usuarios d) \<Longrightarrow>
   username \<notin> usuario ` set (usuarios (others d)) \<Longrightarrow>
   create_user e others d username password =
     ((True, msg_creado),
      (others d)\<lparr>usuarios := usuarios (others d) @
          [\<lparr>user_id = next_rowid (seq_usuarios (others d)) (map user_id (usuarios (others d))),
            usuario = username, password_hash = py_generate_password_hash e password,
            creado_en = current_timestamp e\<rparr>],
        seq_usuarios := next_rowid (seq_usuarios (others d)) (map user_id (usuarios (others d)))\<rparr>)"
  using get_user_by_username_None_iff[of d username]
  by (simp add: create_user_def Let_def insert_usuario_fresh)

lemma create_user_fails_when_known:
  "username \<in> usuario ` set (usuarios d) \<Longrightarrow>
   fst (fst (create_user e others d username password)) = False"
  using create_user_empty[of username password e others d]
    create_user_known[of username password d e others]
  by (cases "username = [] \<or> password = []") auto

text \<open>
  Claim C3. \<open>create_user\<close> fails with a message when the name or the password is
  empty, when the name is already in the table at the lookup, and when it is not there at
  the lookup but is there when the INSERT runs (the UNIQUE constraint; this call then
  writes nothing). Otherwise it succeeds and appends one row whose \<open>password_hash\<close> is
  the output of the hashing function on the password; after that, creating the same name
  again fails. \<open>registro\<close> answers 201 on success and 400 on failure, with the message.
\<close>

theorem create_user_outcomes:
  "(username = [] \<or> password = [] \<longrightarrow>
      create_user e others d username password = ((False, msg_obligatorios), d)) \<and>
   (username \<noteq> [] \<and> password \<noteq> [] \<and> username \<in> usuario ` set (usuarios d) \<longrightarrow>
      create_user e others d username password = ((False, msg_ya_existe), d)) \<and>
   (username \<noteq> [] \<and> password \<noteq> [] \<and> username \<notin> usuario ` set (usuarios d) \<and>
    username \<in> usuario ` set (usuarios (others d)) \<longrightarrow>
      create_user e others d username password = ((False, msg_ya_existe), others d)) \<and>
   (username \<noteq> [] \<and> password \<noteq> [] \<and> username \<notin> usuario ` set (usuarios d) \<and>
    username \<notin> usuario ` set (usuarios (others d)) \<longrightarrow>
      (\<exists>uid. create_user e others d username password =
         ((True, msg_creado),
          (others d)\<lparr>usuarios := usuarios (others d) @
              [\<lparr>user_id = uid, usuario = username,
                password_hash = py_generate_password_hash e password,
                creado_en = current_timestamp e\<rparr>],
            seq_usuarios := uid\<rparr>)) \<and>
      (\<forall>others2 password2.
         fst (fst (create_user e others2 (snd (create_user e others d username password))
                     username password2)) = False)) \<and>
   (is_json r \<and> read_credentials r = Inr (username, password) \<longrightarrow>
      registro e others r d =
        (Inr (jsonify [(''ok'', JBool (fst (fst (create_user e others d username password)))),
                       (''mensaje'', JStr (snd (fst (create_user e others d username password))))]
                (if fst (fst (create_user e others d username password)) then 201 else 400)),
         snd (create_user e others d username password)))"
proof -
  have new: "(\<exists>uid. create_user e others d username password =
         ((True, msg_creado),
          (others d)\<lparr>usuarios := usuarios (others d) @
              [\<lparr>user_id = uid, usuario = username,
                password_hash = py_generate_password_hash e password,
                creado_en = current_timestamp e\<rparr>],
            seq_usuarios := uid\<rparr>)) \<and>
      (\<forall>others2 password2.
         fst (fst (create_user e others2 (snd (create_user e others d username password))
                     username password2)) = False)"
    if h: "username \<noteq> []" "password \<noteq> []" "username \<notin> usuario ` set (usuarios d)"
      "username \<notin> usuario ` set (usuarios (others d))"
  proof -
    note c = create_user_new[of username password d others e, OF h]
    have "username \<in> usuario ` set (usuarios (snd (create_user e others d username password)))"
      by (simp add: c)
    then have "\<forall>others2 password2.
         fst (fst (create_user e others2 (snd (create_user e others d username password))
                     username password2)) = False"
      by (simp only: create_user_fails_when_known simp_thms)
    then show ?thesis using c by blast
  qed
  have reg: "registro e others r d =
        (Inr (jsonify [(''ok'', JBool (fst (fst (create_user e others d username password)))),
                       (''mensaje'', JStr (snd (fst (create_user e others d username password))))]
                (if fst (fst (create_user e others d username password)) then 201 else 400)),
         snd (create_user e others d username password))"
    if "is_json r" "read_credentials r = Inr (username, password)"
    using that by (simp add: registro_def split: prod.splits)
  show ?thesis
    using create_user_empty[of username password e others d]
      create_user_known[of username password d e others]
      create_user_race[of username password d others e] new reg
    by blast
qed

theorem create_user_outcomes_witness:
  "create_user example_env id empty_db ''ana'' [] = ((False, msg_obligatorios), empty_db) \<and>
   create_user example_env id example_db ''ana'' ''pw'' = ((False, msg_ya_existe), example_db) \<and>
   create_user example_env (\<lambda>d. example_db) empty_db ''ana'' ''pw'' =
     ((False, msg_ya_existe), example_db) \<and>
   (\<exists>uid. create_user example_env id empty_db ''ana'' ''pw'' =
      ((True, msg_creado),
       empty_db\<lparr>usuarios := usuarios empty_db @
           [\<lparr>user_id = uid, usuario = ''ana'', password_hash = ''h:pw'',
             creado_en = ''2024-01-01 00:00:00''\<rparr>],
         seq_usuarios := uid\<rparr>)) \<and>
   fst (fst (create_user example_env id
      (snd (create_user example_env id empty_db ''ana'' ''pw'')) ''ana'' ''pw'')) = False"
proof -
  have ne: "''ana'' \<noteq> [] \<and> ''pw'' \<noteq> []" by simp
  have in_ex: "''ana'' \<in> usuario ` set (usuarios example_db)" by (simp add: example_db_def)
  have not_em: "''ana'' \<notin> usuario ` set (usuarios empty_db)" by (simp add: empty_db_def)
  have not_em': "''ana'' \<notin> usuario ` set (usuarios (id empty_db))" by (simp add: empty_db_def)
  have in_race: "''ana'' \<in> usuario ` set (usuarios ((\<lambda>d. example_db) empty_db))"
    by (simp add: example_db_def)
  have hv: "py_generate_password_hash example_env ''pw'' = ''h:pw''"
    "current_timestamp example_env = ''2024-01-01 00:00:00''"
    by (simp_all add: example_env_def)
  have c1: "create_user example_env id empty_db ''ana'' [] = ((False, msg_obligatorios), empty_db)"
    using create_user_outcomes[of "''ana''" "[]" example_env id empty_db] by blast
  have c2: "create_user example_env id example_db ''ana'' ''pw'' = ((False, msg_ya_existe), example_db)"
    using create_user_outcomes[of "''ana''" "''pw''" example_env id example_db] ne in_ex by blast
  have c3: "create_user example_env (\<lambda>d. example_db) empty_db ''ana'' ''pw'' =
     ((False, msg_ya_existe), example_db)"
    using create_user_outcomes[of "''ana''" "''pw''" example_env "\<lambda>d. example_db" empty_db]
      ne not_em in_race by blast
  have c4: "(\<exists>uid. create_user example_env id empty_db ''ana'' ''pw'' =
      ((True, msg_creado),
       (id empty_db)\<lparr>usuarios := usuarios (id empty_db) @
           [\<lparr>user_id = uid, usuario = ''ana'',
             password_hash = py_generate_password_hash example_env ''pw'',
             creado_en = current_timestamp example_env\<rparr>],
         seq_usuarios := uid\<rparr>)) \<and>
     (\<forall>others2 password2.
         fst (fst (create_user example_env others2
            (snd (create_user example_env id empty_db ''ana'' ''pw'')) ''ana'' password2)) = False)"
    using create_user_outcomes[of "''ana''" "''pw''" example_env id empty_db]
      ne not_em not_em' by blast
  then have c5: "fst (fst (create_user example_env id
      (snd (create_user example_env id empty_db ''ana'' ''pw'')) ''ana'' ''pw'')) = False"
    by blast
  from c4 have c4': "\<exists>uid. create_user example_env id empty_db ''ana'' ''pw'' =
      ((True, msg_creado),
       empty_db\<lparr>usuarios := usuarios empty_db @
           [\<lparr>user_id = uid, usuario = ''ana'', password_hash = ''h:pw'',
             creado_en = ''2024-01-01 00:00:00''\<rparr>],
         seq_usuarios := uid\<rparr>)"
    by (simp only: hv id_apply)
  show ?thesis using c1 c2 c3 c4' c5 by (intro conjI)
qed

section \<open>Login\<close>





section \<open>The session guard\<close>

subsection \<open>What \<open>split()\<close> returns\<close>

lemma split_acc_spaces:
  "\<forall>c \<in> set ws. is_space c \<Longrightarrow> split_acc w ws = (if w = [] then [] else [w])"
  by (induction ws arbitrary: w) auto

lemma split_acc_skip_spaces:
  "\<forall>c \<in> set ws. is_space c \<Longrightarrow> split_acc [] (ws @ s) = split_acc [] s"
  by (induction ws) auto

lemma split_acc_word:
  "\<forall>c \<in> set a. \<not> is_space c \<Longrightarrow> split_acc w (a @ s) = split_acc (w @ a) s"
  by (induction a arbitrary: w) auto

lemma split_acc_end_word:
  "w \<noteq> [] \<Longrightarrow> ws \<noteq> [] \<Longrightarrow> \<forall>c \<in> set ws. is_space c \<Longrightarrow>
   split_acc w (ws @ s) = w # split_acc [] s"
proof -
  assume w: "w \<noteq> []" and ws: "ws \<noteq> []" "\<forall>c \<in> set ws. is_space c"
  from ws(1) obtain c cs where c: "ws = c # cs" by (cases ws) auto
  with ws(2) have "is_space c" "\<forall>x \<in> set cs. is_space x" by auto
  then show ?thesis using w by (simp add: c split_acc_skip_spaces)
qed

text \<open>A header made of two words, separated and surrounded by whitespace, has two parts.\<close>

lemma py_split_two_words:
  assumes a: "a \<noteq> []" "\<forall>c \<in> set a. \<not> is_space c"
    and b: "b \<noteq> []" "\<forall>c \<in> set b. \<not> is_space c"
    and sep: "sep \<noteq> []" "\<forall>c \<in> set sep. is_space c"
    and pad: "\<forall>c \<in> set lead. is_space c" "\<forall>c \<in> set trail. is_space c"
  shows "py_split (lead @ a @ sep @ b @ trail) = [a, b]"
proof -
  have "py_split (lead @ a @ sep @ b @ trail) = split_acc [] (a @ sep @ b @ trail)"
    by (simp add: py_split_def split_acc_skip_spaces[OF pad(1)])
  also have "\<dots> = split_acc a (sep @ b @ trail)"
    using split_acc_word[OF a(2), of "[]"] by simp
  also have "\<dots> = a # split_acc [] (b @ trail)"
    by (rule split_acc_end_word[OF a(1) sep])
  also have "split_acc [] (b @ trail) = split_acc b trail"
    using split_acc_word[OF b(2), of "[]"] by simp
  also have "\<dots> = [b]"
    using split_acc_spaces[OF pad(2)] b(1) by simp
  finally show ?thesis .
qed

text \<open>Every part is a non-empty word without whitespace.\<close>

lemma split_acc_parts:
  "\<forall>c \<in> set w. \<not> is_space c \<Longrightarrow>
   \<forall>p \<in> set (split_acc w s). p \<noteq> [] \<and> (\<forall>c \<in> set p. \<not> is_space c)"
proof (induction s arbitrary: w)
  case Nil
  then show ?case by simp
next
  case (Cons c cs)
  show ?case
  proof (cases "is_space c")
    case True
    have "\<forall>x \<in> set ([]::string). \<not> is_space x" by simp
    from Cons.IH[OF this]
    have ih: "\<forall>p \<in> set (split_acc [] cs). p \<noteq> [] \<and> (\<forall>c \<in> set p. \<not> is_space c)" .
    show ?thesis
    proof (cases "w = []")
      case True
      with \<open>is_space c\<close> have eq: "split_acc w (c # cs) = split_acc [] cs" by simp
      show ?thesis unfolding eq by (rule ih)
    next
      case False
      with \<open>is_space c\<close> have eq: "split_acc w (c # cs) = w # split_acc [] cs" by simp
      have "w \<noteq> [] \<and> (\<forall>c \<in> set w. \<not> is_space c)" using False Cons.prems by blast
      with ih show ?thesis unfolding eq by (simp only: set_simps ball_simps simp_thms) blast
    qed
  next
    case False
    have "\<forall>x \<in> set (w @ [c]). \<not> is_space x" using Cons.prems False by simp
    from Cons.IH[OF this]
    have ih: "\<forall>p \<in> set (split_acc (w @ [c]) cs). p \<noteq> [] \<and> (\<forall>c \<in> set p. \<not> is_space c)" .
    from False have eq: "split_acc w (c # cs) = split_acc (w @ [c]) cs" by simp
    show ?thesis unfolding eq by (rule ih)
  qed
qed

lemma py_split_parts:
  "\<forall>p \<in> set (py_split s). p \<noteq> [] \<and> (\<forall>c \<in> set p. \<not> is_space c)"
  unfolding py_split_def by (rule split_acc_parts) simp

subsection \<open>The scheme, whatever its case\<close>

lemma of_char_lower_char:
  "(of_char (lower_char c) :: nat) =
     (if (65 \<le> (of_char c :: nat) \<and> (of_char c :: nat) \<le> 90) \<or>
         (192 \<le> (of_char c :: nat) \<and> (of_char c :: nat) \<le> 222 \<and> (of_char c :: nat) \<noteq> 215)
      then of_char c + 32 else of_char c)"
  by (auto simp: lower_char_def Let_def of_char_of)

lemma lower_char_letter:
  assumes "97 \<le> k" "k \<le> 122"
  shows "(of_char (lower_char c) :: nat) = k \<longleftrightarrow> of_char c = k \<or> of_char c + 32 = k"
  using assms by (auto simp: of_char_lower_char)

lemma lower_char_b: "lower_char c = CHR ''b'' \<longleftrightarrow> c = CHR ''b'' \<or> c = CHR ''B''"
proof -
  have "lower_char c = CHR ''b'' \<longleftrightarrow> (of_char (lower_char c) :: nat) = of_char (CHR ''b'')"
    by (simp only: of_char_eq_iff)
  also have "\<dots> \<longleftrightarrow> (of_char c :: nat) = 98 \<or> (of_char c :: nat) + 32 = 98"
    using lower_char_letter[of 98 c] by simp
  also have "\<dots> \<longleftrightarrow> (of_char c :: nat) = of_char (CHR ''b'') \<or>
                      (of_char c :: nat) = of_char (CHR ''B'')"
    by auto
  finally show ?thesis by (simp only: of_char_eq_iff)
qed

lemma lower_char_e: "lower_char c = CHR ''e'' \<longleftrightarrow> c = CHR ''e'' \<or> c = CHR ''E''"
proof -
  have "lower_char c = CHR ''e'' \<longleftrightarrow> (of_char (lower_char c) :: nat) = of_char (CHR ''e'')"
    by (simp only: of_char_eq_iff)
  also have "\<dots> \<longleftrightarrow> (of_char c :: nat) = 101 \<or> (of_char c :: nat) + 32 = 101"
    using lower_char_letter[of 101 c] by simp
  also have "\<dots> \<longleftrightarrow> (of_char c :: nat) = of_char (CHR ''e'') \<or>
                      (of_char c :: nat) = of_char (CHR ''E'')"
    by auto
  finally show ?thesis by (simp only: of_char_eq_iff)
qed

lemma lower_char_a: "lower_char c = CHR ''a'' \<longleftrightarrow> c = CHR ''a'' \<or> c = CHR ''A''"
proof -
  have "lower_char c = CHR ''a'' \<longleftrightarrow> (of_char (lower_char c) :: nat) = of_char (CHR ''a'')"
    by (simp only: of_char_eq_iff)
  also have "\<dots> \<longleftrightarrow> (of_char c :: nat) = 97 \<or> (of_char c :: nat) + 32 = 97"
    using lower_char_letter[of 97 c] by simp
  also have "\<dots> \<longleftrightarrow> (of_char c :: nat) = of_char (CHR ''a'') \<or>
                      (of_char c :: nat) = of_char (CHR ''A'')"
    by auto
  finally show ?thesis by (simp only: of_char_eq_iff)
qed

lemma lower_char_r: "lower_char c = CHR ''r'' \<longleftrightarrow> c = CHR ''r'' \<or> c = CHR ''R''"
proof -
  have "lower_char c = CHR ''r'' \<longleftrightarrow> (of_char (lower_char c) :: nat) = of_char (CHR ''r'')"
    by (simp only: of_char_eq_iff)
  also have "\<dots> \<longleftrightarrow> (of_char c :: nat) = 114 \<or> (of_char c :: nat) + 32 = 114"
    using lower_char_letter[of 114 c] by simp
  also have "\<dots> \<longleftrightarrow> (of_char c :: nat) = of_char (CHR ''r'') \<or>
                      (of_char c :: nat) = of_char (CHR ''R'')"
    by auto
  finally show ?thesis by (simp only: of_char_eq_iff)
qed

text \<open>The scheme is accepted exactly when it spells bearer in any mix of cases.\<close>

lemma py_lower_bearer_iff:
  "py_lower s = ''bearer'' \<longleftrightarrow>
   (\<exists>c0 c1 c2 c3 c4 c5. s = [c0, c1, c2, c3, c4, c5] \<and>
      (c0 = CHR ''b'' \<or> c0 = CHR ''B'') \<and> (c1 = CHR ''e'' \<or> c1 = CHR ''E'') \<and>
      (c2 = CHR ''a'' \<or> c2 = CHR ''A'') \<and> (c3 = CHR ''r'' \<or> c3 = CHR ''R'') \<and>
      (c4 = CHR ''e'' \<or> c4 = CHR ''E'') \<and> (c5 = CHR ''r'' \<or> c5 = CHR ''R''))"
  (is "?L \<longleftrightarrow> ?R")
proof
  assume ?L
  then have m: "map lower_char s = ''bearer''" by (simp only: py_lower_def)
  from m obtain c0 s0 where s0: "s = c0 # s0" "lower_char c0 = CHR ''b''"
    "map lower_char s0 = ''earer''" by (cases s) simp_all
  from s0(3) obtain c1 s1 where s1: "s0 = c1 # s1" "lower_char c1 = CHR ''e''"
    "map lower_char s1 = ''arer''" by (cases s0) simp_all
  from s1(3) obtain c2 s2 where s2: "s1 = c2 # s2" "lower_char c2 = CHR ''a''"
    "map lower_char s2 = ''rer''" by (cases s1) simp_all
  from s2(3) obtain c3 s3 where s3: "s2 = c3 # s3" "lower_char c3 = CHR ''r''"
    "map lower_char s3 = ''er''" by (cases s2) simp_all
  from s3(3) obtain c4 s4 where s4: "s3 = c4 # s4" "lower_char c4 = CHR ''e''"
    "map lower_char s4 = ''r''" by (cases s3) simp_all
  from s4(3) obtain c5 s5 where s5: "s4 = c5 # s5" "lower_char c5 = CHR ''r''"
    "map lower_char s5 = []" by (cases s4) simp_all
  from s5(3) have e: "s5 = []" by simp
  have "s = [c0, c1, c2, c3, c4, c5]"
    by (simp only: s0(1) s1(1) s2(1) s3(1) s4(1) s5(1) e)
  moreover note s0(2)[unfolded lower_char_b] s1(2)[unfolded lower_char_e]
    s2(2)[unfolded lower_char_a] s3(2)[unfolded lower_char_r]
    s4(2)[unfolded lower_char_e] s5(2)[unfolded lower_char_r]
  ultimately show ?R by blast
next
  assume ?R
  then obtain c0 c1 c2 c3 c4 c5 where s: "s = [c0, c1, c2, c3, c4, c5]"
    and l: "lower_char c0 = CHR ''b''" "lower_char c1 = CHR ''e''" "lower_char c2 = CHR ''a''"
      "lower_char c3 = CHR ''r''" "lower_char c4 = CHR ''e''" "lower_char c5 = CHR ''r''"
    unfolding lower_char_b lower_char_e lower_char_a lower_char_r by blast
  show ?L by (simp only: py_lower_def s list.map l)
qed

subsection \<open>The guard\<close>

lemma py_split_Nil: "py_split [] = []"
  by (simp add: py_split_def)

lemma require_user_cases:
  "require_user e r =
     (case py_split (case authorization r of None \<Rightarrow> [] | Some a \<Rightarrow> a) of
        [scheme, tok] \<Rightarrow> if py_lower scheme = ''bearer'' then verify_token e tok else None
      | _ \<Rightarrow> None)"
proof -
  let ?parts = "py_split (case authorization r of None \<Rightarrow> [] | Some a \<Rightarrow> a)"
  show ?thesis
  proof (cases ?parts)
    case Nil
    then show ?thesis by (simp add: require_user_def)
  next
    case (Cons x xs)
    note p1 = Cons
    show ?thesis
    proof (cases xs)
      case Nil
      with p1 show ?thesis by (simp add: require_user_def)
    next
      case (Cons y ys)
      with p1 show ?thesis by (cases ys) (simp_all add: require_user_def)
    qed
  qed
qed

lemma unauthorized_routes:
  assumes "require_user e r = None"
  shows "status (tareas_route e r) = 401"
    and "crear_tarea e r d = (Inr no_autorizado, d)"
    and "listar_tareas e r d = no_autorizado"
    and "actualizar_tarea e r tid d = (Inr no_autorizado, d)"
    and "borrar_tarea e r tid d = (Inr no_autorizado, d)"
  using assms
  by (simp_all add: tareas_route_def crear_tarea_def listar_tareas_def actualizar_tarea_def
      borrar_tarea_def not_username_def jsonify_def)

text \<open>
  Claim C4. \<open>require_user\<close> resolves an identity only from a header whose \<open>split()\<close>
  has exactly two parts, the first equal to bearer after \<open>lower()\<close>; the identity is then
  what \<open>verify_token\<close> gives for the second part. A missing header and every header of
  another form give \<open>None\<close> (the guard has no error outcome), and every protected route
  then answers 401 without touching the store.
\<close>

theorem require_user_bearer_only:
  "(\<forall>u. require_user e r = Some u \<longrightarrow>
      (\<exists>a scheme tok. authorization r = Some a \<and> py_split a = [scheme, tok] \<and>
         py_lower scheme = ''bearer'' \<and> verify_token e tok = Some u)) \<and>
   (\<forall>a scheme tok. authorization r = Some a \<and> py_split a = [scheme, tok] \<and>
      py_lower scheme = ''bearer'' \<longrightarrow> require_user e r = verify_token e tok) \<and>
   (authorization r = None \<or>
    (\<exists>a. authorization r = Some a \<and>
       \<not> (\<exists>scheme tok. py_split a = [scheme, tok] \<and> py_lower scheme = ''bearer'')) \<longrightarrow>
      require_user e r = None) \<and>
   (require_user e r = None \<longrightarrow>
      status (tareas_route e r) = 401 \<and>
      crear_tarea e r d = (Inr no_autorizado, d) \<and>
      listar_tareas e r d = no_autorizado \<and>
      actualizar_tarea e r tid d = (Inr no_autorizado, d) \<and>
      borrar_tarea e r tid d = (Inr no_autorizado, d) \<and>
      status no_autorizado = 401)"
proof -
  note rc = require_user_cases[of e r]
  have only: "\<exists>a scheme tok. authorization r = Some a \<and> py_split a = [scheme, tok] \<and>
         py_lower scheme = ''bearer'' \<and> verify_token e tok = Some u"
    if "require_user e r = Some u" for u
  proof (cases "authorization r")
    case None
    with that rc show ?thesis by (simp add: py_split_Nil)
  next
    case (Some a)
    with that rc have
      "(case py_split a of
          [scheme, tok] \<Rightarrow> if py_lower scheme = ''bearer'' then verify_token e tok else None
        | _ \<Rightarrow> None) = Some u" by simp
    then obtain scheme tok where "py_split a = [scheme, tok]" "py_lower scheme = ''bearer''"
      "verify_token e tok = Some u"
      by (auto split: list.splits if_splits)
    with Some show ?thesis by blast
  qed
  have form: "require_user e r = verify_token e tok"
    if "authorization r = Some a" "py_split a = [scheme, tok]" "py_lower scheme = ''bearer''"
    for a scheme tok
    using that rc by simp
  have other: "require_user e r = None"
    if "authorization r = None \<or>
        (\<exists>a. authorization r = Some a \<and>
           \<not> (\<exists>scheme tok. py_split a = [scheme, tok] \<and> py_lower scheme = ''bearer''))"
  proof (cases "require_user e r")
    case None
    then show ?thesis .
  next
    case (Some u)
    from only[OF Some] that show ?thesis by auto
  qed
  have st: "status no_autorizado = 401" by (simp add: no_autorizado_def jsonify_def)
  show ?thesis
    using only form other unauthorized_routes[of e r] st by blast
qed

theorem require_user_bearer_only_witness:
  "require_user example_env \<lparr>authorization = Some ''bEaReR   tA '', is_json = False,
                              body_json = None\<rparr> = Some ''ana'' \<and>
   status (tareas_route example_env \<lparr>authorization = None, is_json = False,
                                      body_json = None\<rparr>) = 401 \<and>
   status (tareas_route example_env \<lparr>authorization = Some ''Basic tA'', is_json = False,
                                      body_json = None\<rparr>) = 401 \<and>
   status (tareas_route example_env \<lparr>authorization = Some ''Bearer'', is_json = False,
                                      body_json = None\<rparr>) = 401 \<and>
   status (tareas_route example_env \<lparr>authorization = Some ''Bearer tA x'', is_json = False,
                                      body_json = None\<rparr>) = 401"
proof -
  define rq :: "string option \<Rightarrow> request"
    where "rq = (\<lambda>h. \<lparr>authorization = h, is_json = False, body_json = None\<rparr>)"
  have hd: "authorization (rq h) = h" for h by (simp add: rq_def)
  have good: "py_split ''bEaReR   tA '' = [''bEaReR'', ''tA'']" "py_lower ''bEaReR'' = ''bearer''"
    "verify_token example_env ''tA'' = Some ''ana''" by code_simp+
  from require_user_bearer_only[of example_env "rq (Some ''bEaReR   tA '')"] hd good(1,2)
  have "require_user example_env (rq (Some ''bEaReR   tA '')) = verify_token example_env ''tA''"
    by blast
  then have w1: "require_user example_env (rq (Some ''bEaReR   tA '')) = Some ''ana''"
    by (simp only: good(3))
  have st: "status (tareas_route example_env (rq h)) = 401"
    if "h = None \<or> (\<exists>a. h = Some a \<and>
          \<not> (\<exists>scheme tok. py_split a = [scheme, tok] \<and> py_lower scheme = ''bearer''))" for h
  proof -
    from that have "authorization (rq h) = None \<or>
      (\<exists>a. authorization (rq h) = Some a \<and>
          \<not> (\<exists>scheme tok. py_split a = [scheme, tok] \<and> py_lower scheme = ''bearer''))"
      by (simp only: hd)
    with require_user_bearer_only[of example_env "rq h"]
    have "require_user example_env (rq h) = None" by blast
    with require_user_bearer_only[of example_env "rq h"] show ?thesis by blast
  qed
  have basic: "py_split ''Basic tA'' = [''Basic'', ''tA'']" "py_lower ''Basic'' \<noteq> ''bearer''"
    by code_simp+
  have one: "py_split ''Bearer'' = [''Bearer'']" by code_simp
  have three: "py_split ''Bearer tA x'' = [''Bearer'', ''tA'', ''x'']" by code_simp
  have n0: "status (tareas_route example_env (rq None)) = 401"
    by (rule st) simp
  have n1: "status (tareas_route example_env (rq (Some ''Basic tA''))) = 401"
    by (rule st) (simp add: basic)
  have n2: "status (tareas_route example_env (rq (Some ''Bearer''))) = 401"
    by (rule st) (simp add: one)
  have n3: "status (tareas_route example_env (rq (Some ''Bearer tA x''))) = 401"
    by (rule st) (simp add: three)
  show ?thesis
    using w1 n0 n1 n2 n3 unfolding rq_def by (intro conjI)
qed

section \<open>Tokens\<close>

lemma verify_token_unsigned:
  "ser_unsign e tok = None \<Longrightarrow> verify_token e tok = None"
  by (simp add: verify_token_def ser_loads_def)

lemma verify_token_signed:
  "ser_unsign e tok = Some (data, issued_at) \<Longrightarrow>
   verify_token e tok =
     (if time_now e - issued_at > TOKEN_EXPIRATION_SECONDS e then None else map_of data ''sub'')"
  by (simp add: verify_token_def ser_loads_def)

text \<open>
  Claim C2. Let the signer verify what it signed for this username at the time of issue.
  Then the token \<open>generate_token\<close> issues, verified at a later time \<open>t1\<close> with the same
  signer and TTL, resolves to exactly that username as long as the time elapsed does not
  exceed \<open>TOKEN_EXPIRATION_SECONDS\<close>, and to \<open>None\<close> once it exceeds it; and any token
  the signer does not accept resolves to \<open>None\<close>, whatever the time.
\<close>

theorem verify_token_within_ttl:
  assumes sig: "ser_unsign e (ser_sign e [(''sub'', username)] (time_now e)) =
                  Some ([(''sub'', username)], time_now e)"
  shows
   "(t1 - time_now e \<le> TOKEN_EXPIRATION_SECONDS e \<longrightarrow>
       verify_token (e\<lparr>time_now := t1\<rparr>) (generate_token e username) = Some username) \<and>
    (t1 - time_now e > TOKEN_EXPIRATION_SECONDS e \<longrightarrow>
       verify_token (e\<lparr>time_now := t1\<rparr>) (generate_token e username) = None) \<and>
    (\<forall>tok. ser_unsign e tok = None \<longrightarrow> verify_token (e\<lparr>time_now := t1\<rparr>) tok = None)"
proof -
  let ?e1 = "e\<lparr>time_now := t1\<rparr>"
  have "ser_unsign ?e1 (generate_token e username) = Some ([(''sub'', username)], time_now e)"
    using sig by (simp add: generate_token_def)
  from verify_token_signed[OF this]
  have v: "verify_token ?e1 (generate_token e username) =
      (if t1 - time_now e > TOKEN_EXPIRATION_SECONDS e then None else Some username)"
    by simp
  have bad: "verify_token ?e1 tok = None" if "ser_unsign e tok = None" for tok
    using that verify_token_unsigned[of ?e1 tok] by simp
  show ?thesis using v bad by simp
qed

theorem verify_token_within_ttl_witness:
  "TOKEN_EXPIRATION_SECONDS example_env = 3600 \<and>
   verify_token (example_env\<lparr>time_now := 100, time_now := 3700\<rparr>)
     (generate_token (example_env\<lparr>time_now := 100\<rparr>) ''ana'') = Some ''ana'' \<and>
   verify_token (example_env\<lparr>time_now := 100, time_now := 3701\<rparr>)
     (generate_token (example_env\<lparr>time_now := 100\<rparr>) ''ana'') = None \<and>
   verify_token (example_env\<lparr>time_now := 100, time_now := 200\<rparr>) ''forged'' = None"
proof -
  let ?e = "example_env\<lparr>time_now := 100\<rparr>"
  have sig: "ser_unsign ?e (ser_sign ?e [(''sub'', ''ana'')] (time_now ?e)) =
               Some ([(''sub'', ''ana'')], time_now ?e)"
    by (simp add: example_env_def)
  have ttl: "TOKEN_EXPIRATION_SECONDS example_env = 3600" by (simp add: example_env_def)
  have ttl': "TOKEN_EXPIRATION_SECONDS ?e = 3600" "time_now ?e = 100"
    by (simp_all add: example_env_def)
  have forged: "ser_unsign ?e ''forged'' = None" by (simp add: example_env_def)
  have a: "(3700::int) - time_now ?e \<le> TOKEN_EXPIRATION_SECONDS ?e" by (simp add: ttl')
  have b: "(3701::int) - time_now ?e > TOKEN_EXPIRATION_SECONDS ?e" by (simp add: ttl')
  from verify_token_within_ttl[OF sig, of 3700] a
  have w1: "verify_token (?e\<lparr>time_now := 3700\<rparr>) (generate_token ?e ''ana'') = Some ''ana''"
    by blast
  from verify_token_within_ttl[OF sig, of 3701] b
  have w2: "verify_token (?e\<lparr>time_now := 3701\<rparr>) (generate_token ?e ''ana'') = None"
    by blast
  from verify_token_within_ttl[OF sig, of 200] forged
  have w3: "verify_token (?e\<lparr>time_now := 200\<rparr>) ''forged'' = None"
    by blast
  show ?thesis using ttl w1 w2 w3 by (intro conjI)
qed

end
